theory Spec2Isabelle
  imports Main "HOL-Library.Char_ord" "HOL-Library.List_Lexorder" "HOL-Library.Multiset"
begin

section \<open>The in-memory poll store of \<^verbatim>\<open>backend/main.py\<close>\<close>

text \<open>
  The development embeds the data model and the \<^verbatim>\<open>PollStore\<close> class of
  \<^verbatim>\<open>backend/main.py\<close>, together with the validators of \<^verbatim>\<open>CreatePollRequest\<close>.
  Every method is a function from the store (and the method's arguments) to the new store
  and the method's outcome: the returned view, or the exception raised. The two sources
  of nondeterminism of the module, \<^verbatim>\<open>uuid4().hex\<close> and \<^verbatim>\<open>datetime.utcnow()\<close>, are
  arguments of the functions that call them. The lock is not modelled: the methods are
  embedded as the sequential code they contain.
\<close>

subsection \<open>Python strings: \<^verbatim>\<open>str.strip\<close> and \<^verbatim>\<open>str.lower\<close>\<close>

text \<open>
  A Python \<^verbatim>\<open>str\<close> is modelled by a \<^typ>\<open>string\<close> whose characters are the code points
  below 256. On these, \<^verbatim>\<open>str.strip()\<close> removes from both ends the characters for which
  \<^verbatim>\<open>str.isspace\<close> holds, and \<^verbatim>\<open>str.lower()\<close> maps \<^verbatim>\<open>A\<close>..\<^verbatim>\<open>Z\<close> and the
  Latin-1 capitals (code points 192 to 222, without the multiplication sign 215) to the
  character 32 places further on. Strings compare as Python compares them: by code point,
  lexicographically.
\<close>

definition isspace :: "char \<Rightarrow> bool" where
  "isspace c = ((of_char c :: nat) \<in> {9, 10, 11, 12, 13, 28, 29, 30, 31, 32, 133, 160})"

definition strip :: "string \<Rightarrow> string" where
  "strip s = rev (dropWhile isspace (rev (dropWhile isspace s)))"

definition lower_char :: "char \<Rightarrow> char" where
  "lower_char c =
     (let n = (of_char c :: nat)
      in if (65 \<le> n \<and> n \<le> 90) \<or> (192 \<le> n \<and> n \<le> 222 \<and> n \<noteq> 215)
         then char_of (n + 32) else c)"

definition lower :: "string \<Rightarrow> string" where
  "lower s = map lower_char s"

subsection \<open>Python dictionaries\<close>

text \<open>
  A \<^verbatim>\<open>dict\<close> keeps its entries in insertion order, and \<^verbatim>\<open>values()\<close> iterates in that
  order, which the two sorts of the module see (both are stable). A dictionary is therefore
  an association list: \<^verbatim>\<open>d[k] = v\<close> replaces the value in place when the key is present
  and appends the entry otherwise; \<^verbatim>\<open>d.get(k)\<close> is the lookup; \<^verbatim>\<open>len(d)\<close> is the
  number of entries.
\<close>

type_synonym ('k, 'v) dict = "('k \<times> 'v) list"

definition dict_get :: "('k, 'v) dict \<Rightarrow> 'k \<Rightarrow> 'v option" where
  "dict_get d k = map_of d k"

fun dict_set :: "('k, 'v) dict \<Rightarrow> 'k \<Rightarrow> 'v \<Rightarrow> ('k, 'v) dict" where
  "dict_set [] k v = [(k, v)]"
| "dict_set ((k', v') # d) k v =
     (if k' = k then (k, v) # d else (k', v') # dict_set d k v)"

definition dict_values :: "('k, 'v) dict \<Rightarrow> 'v list" where
  "dict_values d = map snd d"

definition dict_keys :: "('k, 'v) dict \<Rightarrow> 'k list" where
  "dict_keys d = map fst d"

definition dict_len :: "('k, 'v) dict \<Rightarrow> nat" where
  "dict_len d = length d"

text \<open>
  \<^verbatim>\<open>list.sort(key=f)\<close> is a stable ascending sort. With \<^verbatim>\<open>reverse=True\<close> the list is
  reversed, sorted the same way and reversed again, so that equal keys keep their order.
\<close>

definition list_sort :: "('a \<Rightarrow> 'k::linorder) \<Rightarrow> 'a list \<Rightarrow> 'a list" where
  "list_sort key xs = sort_key key xs"

definition list_sort_reverse :: "('a \<Rightarrow> 'k::linorder) \<Rightarrow> 'a list \<Rightarrow> 'a list" where
  "list_sort_reverse key xs = rev (sort_key key (rev xs))"

subsection \<open>Data model\<close>

text \<open>
  The field \<^verbatim>\<open>id\<close> of the four classes is renamed (\<open>id\<close> is the identity function of
  HOL), and the fields of the two response classes carry the prefixes \<open>view_\<close> and
  \<open>resp_\<close>, since a field name belongs to one record. A \<^verbatim>\<open>datetime\<close> is a point on a
  linear time line.
\<close>

datatype PollStatus = OPEN | CLOSED

type_synonym datetime = nat

record PollOptionRecord =
  option_id :: string
  label :: string
  votes :: int

record PollRecord =
  poll_id :: string
  title :: string
  status :: PollStatus
  created_at :: datetime
  closed_at :: "datetime option"
  options :: "(string, PollOptionRecord) dict"
  voters :: "(string, string) dict"

record PollOption =
  view_id :: string
  view_label :: string
  view_votes :: int

record PollResponse =
  resp_id :: string
  resp_title :: string
  resp_status :: PollStatus
  resp_created_at :: datetime
  resp_closed_at :: "datetime option"
  resp_options :: "PollOption list"

text \<open>
  The exceptions the module raises, with their messages. \<open>ValidationError\<close> is what
  pydantic raises when validators of a request model have failed: it collects the messages
  of the failed validators in field order.
\<close>

datatype error = KeyError string | ValueError string | ValidationError "string list"

text \<open>The error conditions of the store, by the names the specification gives them.\<close>

definition NotFound :: error where
  "NotFound = KeyError ''Poll not found''"

definition AlreadyClosed :: error where
  "AlreadyClosed = ValueError ''Poll is closed''"

definition DuplicateVoter :: error where
  "DuplicateVoter = ValueError ''This voter has already voted in this poll''"

definition InvalidOption :: error where
  "InvalidOption = ValueError ''Option not found''"

subsection \<open>\<^verbatim>\<open>CreatePollRequest\<close>\<close>

definition validate_title :: "string \<Rightarrow> error + string" where
  "validate_title value =
     (let title = strip value
      in if title = [] then Inl (ValueError ''Title is required'') else Inr title)"

text \<open>The loop of \<^verbatim>\<open>validate_options\<close>, with its two accumulators.\<close>

fun unique_loop :: "string list \<Rightarrow> string list \<Rightarrow> string set \<Rightarrow> string list" where
  "unique_loop [] unique seen = unique"
| "unique_loop (option # cleaned) unique seen =
     (let lower' = lower option
      in if lower' \<notin> seen
         then unique_loop cleaned (unique @ [option]) (insert lower' seen)
         else unique_loop cleaned unique seen)"

definition validate_options :: "string list \<Rightarrow> error + string list" where
  "validate_options value =
     (let cleaned = map strip (filter (\<lambda>opt. strip opt \<noteq> []) value);
          unique = unique_loop cleaned [] {}
      in if length unique < 2
         then Inl (ValueError ''At least two unique options are required'')
         else Inr unique)"

text \<open>
  Constructing the request model runs the validator of each field and raises one
  \<open>ValidationError\<close> when any of them has raised.
\<close>

definition messages :: "error + 'a \<Rightarrow> string list" where
  "messages r = (case r of Inl (ValueError m) \<Rightarrow> [m] | _ \<Rightarrow> [])"

definition CreatePollRequest :: "string \<Rightarrow> string list \<Rightarrow> error + (string \<times> string list)" where
  "CreatePollRequest title' options' =
     (case (validate_title title', validate_options options') of
        (Inr t, Inr os) \<Rightarrow> Inr (t, os)
      | (rt, ro) \<Rightarrow> Inl (ValidationError (messages rt @ messages ro)))"

subsection \<open>\<^verbatim>\<open>PollStore\<close>\<close>

type_synonym PollStore = "(string, PollRecord) dict"

definition to_response :: "PollRecord \<Rightarrow> PollResponse" where
  "to_response record =
     (let options' = map (\<lambda>option. \<lparr>view_id = option_id option, view_label = label option,
                                   view_votes = votes option\<rparr>)
                        (dict_values (options record))
      in \<lparr>resp_id = poll_id record, resp_title = title record, resp_status = status record,
          resp_created_at = created_at record, resp_closed_at = closed_at record,
          resp_options = list_sort (\<lambda>opt. lower (view_label opt)) options'\<rparr>)"

definition all_polls :: "PollStore \<Rightarrow> PollStore \<times> PollResponse list" where
  "all_polls polls =
     (let records = dict_values polls
      in (polls, map to_response (list_sort_reverse created_at records)))"

text \<open>
  \<open>create_poll polls uuid uuids now title options\<close>: \<open>uuid\<close> is the value of the first
  call of \<^verbatim>\<open>uuid4().hex\<close>, \<open>uuids\<close> are the values of the following calls, one for each
  label, and \<open>now\<close> is the value of \<^verbatim>\<open>datetime.utcnow()\<close>.
\<close>

definition option_records :: "string list \<Rightarrow> string list \<Rightarrow> (string, PollOptionRecord) dict" where
  "option_records uuids options' =
     foldl (\<lambda>records (option_id', label').
              dict_set records option_id' \<lparr>option_id = option_id', label = label', votes = 0\<rparr>)
       [] (zip uuids options')"

definition create_poll ::
  "PollStore \<Rightarrow> string \<Rightarrow> string list \<Rightarrow> datetime \<Rightarrow> string \<Rightarrow> string list
     \<Rightarrow> PollStore \<times> (error + PollResponse)" where
  "create_poll polls uuid uuids now title' options' =
     (let poll = \<lparr>poll_id = uuid, title = title', status = OPEN, created_at = now,
                  closed_at = None, options = option_records uuids options', voters = []\<rparr>
      in (dict_set polls uuid poll, Inr (to_response poll)))"

definition close_poll ::
  "PollStore \<Rightarrow> datetime \<Rightarrow> string \<Rightarrow> PollStore \<times> (error + PollResponse)" where
  "close_poll polls now poll_id' =
     (case dict_get polls poll_id' of
        None \<Rightarrow> (polls, Inl (KeyError ''Poll not found''))
      | Some poll \<Rightarrow>
          (let poll' = poll\<lparr>status := CLOSED, closed_at := Some now\<rparr>
           in (dict_set polls poll_id' poll', Inr (to_response poll'))))"

definition vote ::
  "PollStore \<Rightarrow> string \<Rightarrow> string \<Rightarrow> string \<Rightarrow> PollStore \<times> (error + PollResponse)" where
  "vote polls poll_id' voter_name option_id' =
     (let voter_key = lower (strip voter_name)
      in case dict_get polls poll_id' of
           None \<Rightarrow> (polls, Inl (KeyError ''Poll not found''))
         | Some poll \<Rightarrow>
             if status poll \<noteq> OPEN then (polls, Inl (ValueError ''Poll is closed''))
             else if dict_get (voters poll) voter_key \<noteq> None
               then (polls, Inl (ValueError ''This voter has already voted in this poll''))
             else (case dict_get (options poll) option_id' of
                     None \<Rightarrow> (polls, Inl (ValueError ''Option not found''))
                   | Some option \<Rightarrow>
                       (let poll' = poll\<lparr>options := dict_set (options poll) option_id'
                                                       (option\<lparr>votes := votes option + 1\<rparr>),
                                         voters := dict_set (voters poll) voter_key option_id'\<rparr>
                        in (dict_set polls poll_id' poll', Inr (to_response poll')))))"

text \<open>
  The route \<^verbatim>\<open>POST /api/polls\<close>: the request model is built (and validated) from the
  body, then the store creates the poll. The admin check is outside the store.
\<close>

definition create_poll_route ::
  "PollStore \<Rightarrow> string \<Rightarrow> string list \<Rightarrow> datetime \<Rightarrow> string \<Rightarrow> string list
     \<Rightarrow> PollStore \<times> (error + PollResponse)" where
  "create_poll_route polls uuid uuids now title' options' =
     (case CreatePollRequest title' options' of
        Inl e \<Rightarrow> (polls, Inl e)
      | Inr (t, os) \<Rightarrow> create_poll polls uuid uuids now t os)"

subsection \<open>Sequences of operations\<close>

datatype operation =
    Create string "string list" datetime string "string list"
  | Vote string string string
  | Close datetime string
  | List

fun step :: "PollStore \<Rightarrow> operation \<Rightarrow> PollStore" where
  "step polls (Create uuid uuids now title' options') =
     fst (create_poll polls uuid uuids now title' options')"
| "step polls (Vote poll_id' voter_name option_id') = fst (vote polls poll_id' voter_name option_id')"
| "step polls (Close now poll_id') = fst (close_poll polls now poll_id')"
| "step polls List = fst (all_polls polls)"

fun run :: "PollStore \<Rightarrow> operation list \<Rightarrow> PollStore" where
  "run polls [] = polls"
| "run polls (op # ops) = run (step polls op) ops"

text \<open>
  The identifiers that \<^verbatim>\<open>uuid4\<close> returns are new: a sequence of operations is
  \<open>fresh\<close> from a store when no \<open>Create\<close> of it draws the identifier of a poll that the
  store holds at that moment.
\<close>

fun fresh :: "PollStore \<Rightarrow> operation list \<Rightarrow> bool" where
  "fresh polls [] = True"
| "fresh polls (Create uuid uuids now title' options' # ops) =
     (dict_get polls uuid = None \<and>
      fresh (step polls (Create uuid uuids now title' options')) ops)"
| "fresh polls (op # ops) = fresh (step polls op) ops"

subsection \<open>Invariant and running example\<close>

text \<open>
  The invariant of a poll: the vote counts of its options add up to the number of entries
  of its ledger, and no voter key occurs twice in the ledger.
\<close>

definition poll_ok :: "PollRecord \<Rightarrow> bool" where
  "poll_ok poll \<longleftrightarrow>
     sum_list (map votes (dict_values (options poll))) = int (dict_len (voters poll)) \<and>
     distinct (dict_keys (voters poll))"

definition store_ok :: "PollStore \<Rightarrow> bool" where
  "store_ok polls \<longleftrightarrow> list_all poll_ok (dict_values polls)"

text \<open>
  A small history: a poll with two options is created, Alice votes, votes again under
  another spelling of her name, and the poll is closed.
\<close>

definition example_ops :: "operation list" where
  "example_ops =
     [Create ''p'' [''a'', ''b''] 1 ''Lunch'' [''Pizza'', ''Tacos''],
      Vote ''p'' ''Alice'' ''a'', Vote ''p'' ''alice '' ''b'', Close 2 ''p'']"

definition example_poll :: PollRecord where
  "example_poll =
     \<lparr>poll_id = ''p'', title = ''Lunch'', status = CLOSED, created_at = 1, closed_at = Some 2,
      options = [(''a'', \<lparr>option_id = ''a'', label = ''Pizza'', votes = 1\<rparr>),
                 (''b'', \<lparr>option_id = ''b'', label = ''Tacos'', votes = 0\<rparr>)],
      voters = [(''alice'', ''a'')]\<rparr>"

definition open_poll :: PollRecord where
  "open_poll = example_poll\<lparr>status := OPEN, closed_at := None\<rparr>"

definition new_poll :: PollRecord where
  "new_poll =
     \<lparr>poll_id = ''p'', title = ''Lunch'', status = OPEN, created_at = 1, closed_at = None,
      options = [(''a'', \<lparr>option_id = ''a'', label = ''Pizza'', votes = 0\<rparr>),
                 (''b'', \<lparr>option_id = ''b'', label = ''Tacos'', votes = 0\<rparr>)],
      voters = []\<rparr>"

subsection \<open>How a poll may change\<close>

text \<open>
  \<open>grows poll poll'\<close>: the later record \<open>poll'\<close> has the identity and the options of
  \<open>poll\<close>, no vote count is lower, and a closed poll is still closed, with the same
  options and ledger.
\<close>

definition grows :: "PollRecord \<Rightarrow> PollRecord \<Rightarrow> bool" where
  "grows poll poll' \<longleftrightarrow>
     poll_id poll' = poll_id poll \<and> title poll' = title poll \<and>
     created_at poll' = created_at poll \<and>
     dict_keys (options poll') = dict_keys (options poll) \<and>
     (\<forall>oid option. dict_get (options poll) oid = Some option \<longrightarrow>
        (\<exists>option'. dict_get (options poll') oid = Some option' \<and>
           option_id option' = option_id option \<and> label option' = label option \<and>
           votes option \<le> votes option')) \<and>
     (status poll = CLOSED \<longrightarrow>
        status poll' = CLOSED \<and> options poll' = options poll \<and> voters poll' = voters poll)"

subsection \<open>De-duplication, as the specification words it\<close>

text \<open>
  The specification of \<open>create\<close> says which labels survive: each option is trimmed and
  the empty ones are dropped; of the entries that are equal under case-insensitive
  comparison the first occurrence wins, and the survivors keep the order of their first
  appearance. That is, the entry at position \<open>i\<close> survives when no earlier entry has the
  same lowercased text. \<open>spec_unique_after pre\<close> is the same selection when the entries
  \<open>pre\<close> have come before.
\<close>

definition spec_unique_options :: "string list \<Rightarrow> string list" where
  "spec_unique_options xs =
     map (\<lambda>i. xs ! i)
       (filter (\<lambda>i. lower (xs ! i) \<notin> lower ` set (take i xs)) [0..<length xs])"

definition spec_unique_after :: "string list \<Rightarrow> string list \<Rightarrow> string list" where
  "spec_unique_after pre xs =
     map (\<lambda>i. xs ! i)
       (filter (\<lambda>i. lower (xs ! i) \<notin> lower ` set (pre @ take i xs)) [0..<length xs])"

definition spec_cleaned_options :: "string list \<Rightarrow> string list" where
  "spec_cleaned_options value = filter (\<lambda>opt. opt \<noteq> []) (map strip value)"

text \<open>Two more examples: a newer poll, and the views of a store with both polls.\<close>

definition colour_poll :: PollRecord where
  "colour_poll =
     \<lparr>poll_id = ''q'', title = ''Colours'', status = OPEN, created_at = 3, closed_at = None,
      options = [(''c'', \<lparr>option_id = ''c'', label = ''Red'', votes = 0\<rparr>),
                 (''d'', \<lparr>option_id = ''d'', label = ''Blue'', votes = 0\<rparr>)],
      voters = []\<rparr>"

definition example_views :: "PollResponse list" where
  "example_views =
     [\<lparr>resp_id = ''q'', resp_title = ''Colours'', resp_status = OPEN, resp_created_at = 3,
       resp_closed_at = None,
       resp_options = [\<lparr>view_id = ''d'', view_label = ''Blue'', view_votes = 0\<rparr>,
                       \<lparr>view_id = ''c'', view_label = ''Red'', view_votes = 0\<rparr>]\<rparr>,
      \<lparr>resp_id = ''p'', resp_title = ''Lunch'', resp_status = CLOSED, resp_created_at = 1,
       resp_closed_at = Some 2,
       resp_options = [\<lparr>view_id = ''a'', view_label = ''Pizza'', view_votes = 1\<rparr>,
                       \<lparr>view_id = ''b'', view_label = ''Tacos'', view_votes = 0\<rparr>]\<rparr>]"

section \<open>Properties\<close>

subsection \<open>Evaluation on concrete inputs\<close>

lemmas str_eval = strip_def isspace_def lower_def lower_char_def char_of_def bit_Suc_0_iff

lemmas store_eval = vote_def close_poll_def create_poll_def all_polls_def to_response_def
  option_records_def dict_get_def dict_values_def dict_keys_def dict_len_def list_sort_def
  list_sort_reverse_def Let_def

lemma run_example_ops: "run [] example_ops = [(''p'', example_poll)]"
  by (simp add: example_ops_def example_poll_def str_eval store_eval)

lemma run_example_create:
  "run [] [Create ''p'' [''a'', ''b''] 1 ''Lunch'' [''Pizza'', ''Tacos'']] = [(''p'', new_poll)]"
  by (simp add: new_poll_def store_eval)

lemma fresh_example_ops: "fresh [] example_ops"
  by (simp add: example_ops_def dict_get_def)

lemma vote_new_poll:
  "vote [(''p'', new_poll)] ''p'' ''Alice'' ''a''
     = ([(''p'', open_poll)], Inr (to_response open_poll))"
  by (simp add: vote_def new_poll_def open_poll_def example_poll_def dict_get_def Let_def str_eval)

subsection \<open>Dictionaries\<close>

lemma dict_get_dict_set:
  "dict_get (dict_set d k v) k' = (if k' = k then Some v else dict_get d k')"
  by (induction d) (auto simp: dict_get_def)

lemma dict_get_None_iff: "dict_get d k = None \<longleftrightarrow> k \<notin> set (dict_keys d)"
  by (simp add: dict_get_def dict_keys_def map_of_eq_None_iff)

lemma dict_set_absent: "dict_get d k = None \<Longrightarrow> dict_set d k v = d @ [(k, v)]"
  by (induction d) (auto simp: dict_get_def split: if_splits)

lemma dict_keys_dict_set_present:
  "dict_get d k = Some v' \<Longrightarrow> dict_keys (dict_set d k v) = dict_keys d"
  by (induction d) (auto simp: dict_get_def dict_keys_def split: if_splits)

lemma set_dict_set: "set (dict_set d k v) \<subseteq> insert (k, v) (set d)"
  by (induction d) (auto split: if_splits)

lemma dict_get_in_set: "dict_get d k = Some v \<Longrightarrow> (k, v) \<in> set d"
  by (simp add: dict_get_def map_of_SomeD)

lemma dict_keys_dict_set_absent:
  "dict_get d k = None \<Longrightarrow> dict_keys (dict_set d k v) = dict_keys d @ [k]"
  by (simp add: dict_set_absent dict_keys_def)

subsection \<open>The tally invariant\<close>

lemma sum_votes_dict_set:
  "dict_get d k = Some v \<Longrightarrow>
   sum_list (map votes (dict_values (dict_set d k (v\<lparr>votes := votes v + 1\<rparr>))))
     = sum_list (map votes (dict_values d)) + 1"
  by (induction d) (auto simp: dict_get_def dict_values_def split: if_splits)

lemma sum_list_all_zero: "\<forall>x \<in> set xs. f x = (0::int) \<Longrightarrow> sum_list (map f xs) = 0"
  by (induction xs) auto

lemma store_okI: "(\<And>k p. (k, p) \<in> set polls \<Longrightarrow> poll_ok p) \<Longrightarrow> store_ok polls"
  by (auto simp: store_ok_def dict_values_def list_all_iff)

lemma store_okD: "store_ok polls \<Longrightarrow> (k, p) \<in> set polls \<Longrightarrow> poll_ok p"
  by (force simp: store_ok_def dict_values_def list_all_iff)

lemma store_ok_dict_set:
  assumes "store_ok polls" "poll_ok p"
  shows "store_ok (dict_set polls k p)"
proof (rule store_okI)
  fix k' p' assume "(k', p') \<in> set (dict_set polls k p)"
  with set_dict_set [of polls k p] have "(k', p') = (k, p) \<or> (k', p') \<in> set polls" by auto
  with assms show "poll_ok p'" by (auto dest: store_okD)
qed

lemma votes_option_records_loop:
  "\<forall>x \<in> set acc. votes (snd x) = 0 \<Longrightarrow>
   \<forall>x \<in> set (foldl (\<lambda>records (option_id', label').
              dict_set records option_id' \<lparr>option_id = option_id', label = label', votes = 0\<rparr>)
            acc zs). votes (snd x) = 0"
proof (induction zs arbitrary: acc)
  case Nil
  then show ?case by simp
next
  case (Cons z zs)
  obtain i l where z: "z = (i, l)" by (cases z)
  have "\<forall>x \<in> set (dict_set acc i \<lparr>option_id = i, label = l, votes = 0\<rparr>). votes (snd x) = 0"
    using Cons.prems set_dict_set [of acc i "\<lparr>option_id = i, label = l, votes = 0\<rparr>"] by auto
  from Cons.IH [OF this] show ?case by (simp add: z)
qed

lemma sum_votes_option_records:
  "sum_list (map votes (dict_values (option_records uuids labels))) = 0"
proof -
  have "\<forall>x \<in> set (option_records uuids labels). votes (snd x) = 0"
    unfolding option_records_def by (rule votes_option_records_loop) simp
  then show ?thesis by (simp add: dict_values_def sum_list_all_zero)
qed

lemma store_ok_create_poll:
  "store_ok polls \<Longrightarrow> store_ok (fst (create_poll polls uuid uuids now t os))"
  by (simp add: create_poll_def Let_def store_ok_dict_set poll_ok_def sum_votes_option_records
      dict_len_def dict_keys_def)

lemma store_ok_close_poll: "store_ok polls \<Longrightarrow> store_ok (fst (close_poll polls now pid))"
  by (auto simp: close_poll_def Let_def poll_ok_def split: option.splits
      intro!: store_ok_dict_set dest!: dict_get_in_set dest: store_okD)

lemma poll_ok_vote:
  assumes "poll_ok poll" "dict_get (voters poll) key = None"
    "dict_get (options poll) oid = Some option"
  shows "poll_ok (poll\<lparr>options := dict_set (options poll) oid (option\<lparr>votes := votes option + 1\<rparr>),
                       voters := dict_set (voters poll) key oid\<rparr>)"
  using assms
  by (simp add: poll_ok_def sum_votes_dict_set dict_set_absent dict_len_def dict_keys_def
      dict_get_None_iff)

lemma store_ok_vote: "store_ok polls \<Longrightarrow> store_ok (fst (vote polls pid voter oid))"
proof -
  assume ok: "store_ok polls"
  show ?thesis
  proof (cases "dict_get polls pid")
    case None
    with ok show ?thesis by (simp add: vote_def)
  next
    case (Some poll)
    then have "poll_ok poll" using ok by (blast dest: dict_get_in_set store_okD)
    with ok Some show ?thesis
      by (auto simp: vote_def Let_def split: option.splits
          intro!: store_ok_dict_set poll_ok_vote)
  qed
qed

lemma store_ok_step: "store_ok polls \<Longrightarrow> store_ok (step polls op)"
  by (cases op) (simp_all add: store_ok_create_poll store_ok_close_poll store_ok_vote all_polls_def)

lemma store_ok_run: "store_ok polls \<Longrightarrow> store_ok (run polls ops)"
  by (induction ops arbitrary: polls) (simp_all add: store_ok_step)

text \<open>
  Claim C1. Start from the empty store and run any sequence of \<open>create_poll\<close>, \<open>vote\<close>,
  \<open>close_poll\<close> (and \<open>all_polls\<close>) calls, whatever their arguments and whether they
  succeed or raise. In every poll of the resulting store the vote counts of the options add
  up to the number of entries of the voter ledger; and the ledger holds each voter key once,
  so that its length is the number of voters.
\<close>

theorem tally_equals_ledger_size:
  "\<forall>poll \<in> set (dict_values (run [] ops)).
     sum_list (map votes (dict_values (options poll))) = int (dict_len (voters poll)) \<and>
     distinct (dict_keys (voters poll))"
proof -
  have "store_ok []" by (simp add: store_ok_def dict_values_def)
  then have "store_ok (run [] ops)" by (rule store_ok_run)
  then show ?thesis by (simp add: store_ok_def list_all_iff poll_ok_def)
qed

theorem tally_equals_ledger_size_witness:
  "example_poll \<in> set (dict_values (run [] example_ops)) \<and>
   sum_list (map votes (dict_values (options example_poll)))
     = int (dict_len (voters example_poll)) \<and>
   distinct (dict_keys (voters example_poll))"
proof -
  have "example_poll \<in> set (dict_values (run [] example_ops))"
    by (simp add: run_example_ops dict_values_def)
  with tally_equals_ledger_size [of example_ops] show ?thesis by blast
qed

subsection \<open>Outcomes of \<open>vote\<close>\<close>

lemma vote_success:
  assumes "vote polls pid voter oid = (polls', Inr r)"
  obtains poll option where
    "dict_get polls pid = Some poll" "status poll = OPEN"
    "dict_get (voters poll) (lower (strip voter)) = None"
    "dict_get (options poll) oid = Some option"
    "polls' = dict_set polls pid
                (poll\<lparr>options := dict_set (options poll) oid (option\<lparr>votes := votes option + 1\<rparr>),
                      voters := dict_set (voters poll) (lower (strip voter)) oid\<rparr>)"
    "r = to_response
           (poll\<lparr>options := dict_set (options poll) oid (option\<lparr>votes := votes option + 1\<rparr>),
                 voters := dict_set (voters poll) (lower (strip voter)) oid\<rparr>)"
  using assms by (auto simp: vote_def Let_def split: option.splits if_splits)

lemma vote_failure:
  assumes "vote polls pid voter oid = (polls', Inl e)"
  shows "polls' = polls"
  using assms by (auto simp: vote_def Let_def split: option.splits if_splits)

text \<open>
  Claim C9. The checks of \<open>vote\<close> come in a fixed order, and the first that fails decides
  the error: an unknown poll gives \<open>NotFound\<close>; a known poll that is not open gives
  \<open>AlreadyClosed\<close>, whoever votes for whatever; an open poll whose ledger holds the voter
  key gives \<open>DuplicateVoter\<close>, whatever the option; and only then an unknown option gives
  \<open>InvalidOption\<close>. The store is returned as it was in all four cases.
\<close>

theorem vote_check_order:
  "(dict_get polls pid = None \<longrightarrow> vote polls pid voter oid = (polls, Inl NotFound)) \<and>
   (\<forall>poll. dict_get polls pid = Some poll \<and> status poll \<noteq> OPEN
      \<longrightarrow> vote polls pid voter oid = (polls, Inl AlreadyClosed)) \<and>
   (\<forall>poll. dict_get polls pid = Some poll \<and> status poll = OPEN \<and>
           dict_get (voters poll) (lower (strip voter)) \<noteq> None
      \<longrightarrow> vote polls pid voter oid = (polls, Inl DuplicateVoter)) \<and>
   (\<forall>poll. dict_get polls pid = Some poll \<and> status poll = OPEN \<and>
           dict_get (voters poll) (lower (strip voter)) = None \<and>
           dict_get (options poll) oid = None
      \<longrightarrow> vote polls pid voter oid = (polls, Inl InvalidOption))"
  by (auto simp: vote_def NotFound_def AlreadyClosed_def DuplicateVoter_def InvalidOption_def)
theorem vote_check_order_witness:
  "vote [] ''p'' ''Alice'' ''zz'' = ([], Inl NotFound) \<and>
   vote [(''p'', example_poll)] ''p'' ''Alice'' ''zz'' = ([(''p'', example_poll)], Inl AlreadyClosed) \<and>
   vote [(''p'', open_poll)] ''p'' ''Alice'' ''zz'' = ([(''p'', open_poll)], Inl DuplicateVoter) \<and>
   vote [(''p'', open_poll)] ''p'' ''Bob'' ''zz'' = ([(''p'', open_poll)], Inl InvalidOption)"
proof -
  have 1: "dict_get ([] :: PollStore) ''p'' = None" by (simp add: dict_get_def)
  have 2: "dict_get [(''p'', example_poll)] ''p'' = Some example_poll \<and> status example_poll \<noteq> OPEN"
    by (simp add: dict_get_def example_poll_def)
  have 3: "dict_get [(''p'', open_poll)] ''p'' = Some open_poll \<and> status open_poll = OPEN \<and>
           dict_get (voters open_poll) (lower (strip ''Alice'')) \<noteq> None"
    by (simp add: dict_get_def open_poll_def example_poll_def str_eval)
  have 4: "dict_get [(''p'', open_poll)] ''p'' = Some open_poll \<and> status open_poll = OPEN \<and>
           dict_get (voters open_poll) (lower (strip ''Bob'')) = None \<and>
           dict_get (options open_poll) ''zz'' = None"
    by (simp add: dict_get_def open_poll_def example_poll_def str_eval)
  from 1 vote_check_order [of "[]" "''p''" "''Alice''" "''zz''"]
  have a: "vote [] ''p'' ''Alice'' ''zz'' = ([], Inl NotFound)" by blast
  from 2 vote_check_order [of "[(''p'', example_poll)]" "''p''" "''Alice''" "''zz''"]
  have b: "vote [(''p'', example_poll)] ''p'' ''Alice'' ''zz'' = ([(''p'', example_poll)], Inl AlreadyClosed)"
    by blast
  from 3 vote_check_order [of "[(''p'', open_poll)]" "''p''" "''Alice''" "''zz''"]
  have c: "vote [(''p'', open_poll)] ''p'' ''Alice'' ''zz'' = ([(''p'', open_poll)], Inl DuplicateVoter)"
    by blast
  from 4 vote_check_order [of "[(''p'', open_poll)]" "''p''" "''Bob''" "''zz''"]
  have d: "vote [(''p'', open_poll)] ''p'' ''Bob'' ''zz'' = ([(''p'', open_poll)], Inl InvalidOption)"
    by blast
  from a b c d show ?thesis by simp
qed

text \<open>
  Claim C10. A successful \<open>vote\<close> replaces the record of the poll by one in which the
  chosen option has one vote more and the ledger has one entry more, the voter key mapped to
  the option; the poll's id, title, status and timestamps, the keys and order of its
  options, every other option record, the keys and order of the store and every other poll
  are as before. The view returned is the view of the new record.
\<close>

theorem vote_frame:
  assumes "vote polls pid voter oid = (polls', Inr r)"
  shows "\<exists>poll poll' option.
           dict_get polls pid = Some poll \<and> dict_get polls' pid = Some poll' \<and>
           r = to_response poll' \<and>
           dict_get (options poll) oid = Some option \<and>
           dict_get (options poll') oid = Some (option\<lparr>votes := votes option + 1\<rparr>) \<and>
           (\<forall>k. k \<noteq> oid \<longrightarrow> dict_get (options poll') k = dict_get (options poll) k) \<and>
           dict_keys (options poll') = dict_keys (options poll) \<and>
           dict_get (voters poll) (lower (strip voter)) = None \<and>
           voters poll' = voters poll @ [(lower (strip voter), oid)] \<and>
           poll_id poll' = poll_id poll \<and> title poll' = title poll \<and>
           status poll' = status poll \<and> created_at poll' = created_at poll \<and>
           closed_at poll' = closed_at poll \<and>
           dict_keys polls' = dict_keys polls \<and>
           (\<forall>k. k \<noteq> pid \<longrightarrow> dict_get polls' k = dict_get polls k)"
  using assms
  by (rule vote_success)
    (auto simp: dict_get_dict_set dict_keys_dict_set_present dict_set_absent)

theorem vote_frame_witness:
  "vote [(''p'', new_poll)] ''p'' ''Alice'' ''a''
     = ([(''p'', open_poll)], Inr (to_response open_poll)) \<and>
   dict_get (options open_poll) ''a'' = Some \<lparr>option_id = ''a'', label = ''Pizza'', votes = 1\<rparr> \<and>
   dict_get (options open_poll) ''b'' = dict_get (options new_poll) ''b'' \<and>
   voters open_poll = voters new_poll @ [(''alice'', ''a'')] \<and>
   title open_poll = title new_poll \<and> status open_poll = status new_poll"
proof -
  have a: "dict_get [(''p'', new_poll)] ''p'' = Some new_poll"
    "dict_get [(''p'', open_poll)] ''p'' = Some open_poll"
    "dict_get (options new_poll) ''a'' = Some \<lparr>option_id = ''a'', label = ''Pizza'', votes = 0\<rparr>"
    "lower (strip ''Alice'') = ''alice''"
    by (simp_all add: dict_get_def new_poll_def str_eval)
  from vote_frame [OF vote_new_poll] a show ?thesis
    by (auto simp: vote_new_poll)
qed

text \<open>
  Claim C2. Take an open poll, a voter whose key is not in its ledger and one of its
  options. The vote succeeds; and a second vote on the poll under any name with the same
  key (the name trimmed and lowercased), for any option, fails with \<open>DuplicateVoter\<close> and
  returns the store as the first vote left it.
\<close>

theorem second_vote_is_duplicate:
  assumes "dict_get polls pid = Some poll" and "status poll = OPEN"
    and "dict_get (voters poll) (lower (strip voter)) = None"
    and "dict_get (options poll) oid = Some option"
    and "lower (strip voter') = lower (strip voter)"
  shows "\<exists>polls' r. vote polls pid voter oid = (polls', Inr r) \<and>
           vote polls' pid voter' oid' = (polls', Inl DuplicateVoter)"
  using assms by (simp add: vote_def Let_def dict_get_dict_set DuplicateVoter_def)

theorem second_vote_is_duplicate_witness:
  "vote [(''p'', new_poll)] ''p'' ''Alice'' ''a''
     = ([(''p'', open_poll)], Inr (to_response open_poll)) \<and>
   vote [(''p'', open_poll)] ''p'' '' alice '' ''b'' = ([(''p'', open_poll)], Inl DuplicateVoter) \<and>
   vote [(''p'', open_poll)] ''p'' ''ALICE'' ''a'' = ([(''p'', open_poll)], Inl DuplicateVoter)"
proof -
  have h: "dict_get [(''p'', new_poll)] ''p'' = Some new_poll" "status new_poll = OPEN"
    "dict_get (voters new_poll) (lower (strip ''Alice'')) = None"
    "dict_get (options new_poll) ''a'' = Some \<lparr>option_id = ''a'', label = ''Pizza'', votes = 0\<rparr>"
    by (simp_all add: dict_get_def new_poll_def)
  have k: "lower (strip '' alice '') = lower (strip ''Alice'')"
    "lower (strip ''ALICE'') = lower (strip ''Alice'')"
    by (simp_all add: str_eval)
  from second_vote_is_duplicate [OF h k(1), of "''b''"] second_vote_is_duplicate [OF h k(2), of "''a''"]
  show ?thesis by (simp add: vote_new_poll)
qed

subsection \<open>Outcomes of \<open>close_poll\<close>\<close>

text \<open>
  Claim C7. Closing an unknown poll id fails with \<open>NotFound\<close> and returns the store as it
  was. Closing a known one succeeds: the poll's record has status \<open>CLOSED\<close> and closing
  time \<open>now\<close> afterwards and is otherwise as before, and the other polls are untouched.
  The view returned is the view of the updated poll: it carries the poll's id, title and
  creation time, the status \<open>CLOSED\<close>, the closing time \<open>now\<close>, and the poll's options
  (id, label and votes of each), stably sorted by lowercased label.
\<close>

theorem close_poll_outcome:
  "(dict_get polls pid = None \<longrightarrow> close_poll polls now pid = (polls, Inl NotFound)) \<and>
   (\<forall>poll. dict_get polls pid = Some poll \<longrightarrow>
      (\<exists>polls' poll' r. close_poll polls now pid = (polls', Inr r) \<and>
         dict_get polls' pid = Some poll' \<and>
         poll' = poll\<lparr>status := CLOSED, closed_at := Some now\<rparr> \<and>
         status poll' = CLOSED \<and> closed_at poll' = Some now \<and>
         r = to_response poll' \<and>
         resp_id r = poll_id poll \<and> resp_title r = title poll \<and>
         resp_status r = CLOSED \<and> resp_created_at r = created_at poll \<and>
         resp_closed_at r = Some now \<and>
         resp_options r
           = sort_key (\<lambda>opt. lower (view_label opt))
               (map (\<lambda>option. \<lparr>view_id = option_id option, view_label = label option,
                                    view_votes = votes option\<rparr>)
                    (map snd (options poll))) \<and>
         sorted (map (\<lambda>opt. lower (view_label opt)) (resp_options r)) \<and>
         mset (resp_options r)
           = mset (map (\<lambda>option. \<lparr>view_id = option_id option, view_label = label option,
                                       view_votes = votes option\<rparr>)
                       (map snd (options poll))) \<and>
         dict_keys polls' = dict_keys polls \<and>
         (\<forall>k. k \<noteq> pid \<longrightarrow> dict_get polls' k = dict_get polls k)))"
proof -
  have view: "to_response (poll\<lparr>status := CLOSED, closed_at := Some now\<rparr>)
      = \<lparr>resp_id = poll_id poll, resp_title = title poll, resp_status = CLOSED,
         resp_created_at = created_at poll, resp_closed_at = Some now,
         resp_options = sort_key (\<lambda>opt. lower (view_label opt))
               (map (\<lambda>option. \<lparr>view_id = option_id option, view_label = label option,
                                    view_votes = votes option\<rparr>)
                    (map snd (options poll)))\<rparr>" for poll
    by (simp add: to_response_def list_sort_def dict_values_def)
  show ?thesis
    by (auto simp: close_poll_def NotFound_def Let_def dict_get_dict_set
        dict_keys_dict_set_present view)
qed

theorem close_poll_outcome_witness:
  "close_poll [] 5 ''p'' = ([], Inl NotFound) \<and>
   close_poll [(''p'', open_poll)] 2 ''p''
     = ([(''p'', example_poll)],
        Inr \<lparr>resp_id = ''p'', resp_title = ''Lunch'', resp_status = CLOSED, resp_created_at = 1,
             resp_closed_at = Some 2,
             resp_options = [\<lparr>view_id = ''a'', view_label = ''Pizza'', view_votes = 1\<rparr>,
                             \<lparr>view_id = ''b'', view_label = ''Tacos'', view_votes = 0\<rparr>]\<rparr>)"
proof -
  have 1: "dict_get ([] :: PollStore) ''p'' = None" by (simp add: dict_get_def)
  have 2: "dict_get [(''p'', open_poll)] ''p'' = Some open_poll" by (simp add: dict_get_def)
  from 1 close_poll_outcome [of "[]" "''p''" 5] have a: "close_poll [] 5 ''p'' = ([], Inl NotFound)"
    by blast
  from 2 close_poll_outcome [of "[(''p'', open_poll)]" "''p''" 2]
  obtain polls' r where c: "close_poll [(''p'', open_poll)] 2 ''p'' = (polls', Inr r)"
    and r: "resp_id r = poll_id open_poll" "resp_title r = title open_poll"
      "resp_status r = CLOSED" "resp_created_at r = created_at open_poll"
      "resp_closed_at r = Some 2"
      "resp_options r
           = sort_key (\<lambda>opt. lower (view_label opt))
               (map (\<lambda>option. \<lparr>view_id = option_id option, view_label = label option,
                                    view_votes = votes option\<rparr>)
                    (map snd (options open_poll)))"
    by blast
  from r have "r = \<lparr>resp_id = ''p'', resp_title = ''Lunch'', resp_status = CLOSED,
             resp_created_at = 1, resp_closed_at = Some 2,
             resp_options = [\<lparr>view_id = ''a'', view_label = ''Pizza'', view_votes = 1\<rparr>,
                             \<lparr>view_id = ''b'', view_label = ''Tacos'', view_votes = 0\<rparr>]\<rparr>"
    by (simp add: open_poll_def example_poll_def str_eval)
  moreover have "fst (close_poll [(''p'', open_poll)] 2 ''p'') = [(''p'', example_poll)]"
    by (simp add: close_poll_def dict_get_def open_poll_def example_poll_def Let_def)
  ultimately show ?thesis using a c by simp
qed

text \<open>
  Claim C5 says that closing a closed poll again leaves its closing time unchanged and
  returns the view it already had. It does not: in the store that the running example
  leaves, the poll was closed at time 2; closing it again at time 3 moves its closing time
  to 3, and the view returned is not the view of the poll as it was.
\<close>

theorem close_again_counterexample:
  "dict_get (run [] example_ops) ''p'' = Some example_poll \<and> status example_poll = CLOSED \<and>
   closed_at example_poll = Some 2 \<and>
   map_option closed_at (dict_get (fst (close_poll (run [] example_ops) 3 ''p'')) ''p'')
     = Some (Some 3) \<and>
   snd (close_poll (run [] example_ops) 3 ''p'') \<noteq> Inr (to_response example_poll)"
  by (simp add: run_example_ops close_poll_def dict_get_def example_poll_def to_response_def)

text \<open>
  Claim C5, amended. Closing a poll that is already closed succeeds and returns the view of
  the poll's record; the record keeps its status, options and ledger (and id, title and
  creation time), and its closing time is overwritten with the current time. So the record
  and the view are the old ones only when the clock still shows the old closing time.
\<close>

theorem close_again_overwrites_timestamp:
  assumes "dict_get polls pid = Some poll" and "status poll = CLOSED"
  shows "\<exists>polls' r. close_poll polls now pid = (polls', Inr r) \<and>
           dict_get polls' pid = Some (poll\<lparr>closed_at := Some now\<rparr>) \<and>
           r = to_response (poll\<lparr>closed_at := Some now\<rparr>) \<and>
           dict_keys polls' = dict_keys polls \<and>
           (\<forall>k. k \<noteq> pid \<longrightarrow> dict_get polls' k = dict_get polls k) \<and>
           (closed_at poll = Some now \<longrightarrow> dict_get polls' pid = Some poll \<and> r = to_response poll)"
proof -
  have eq: "poll\<lparr>status := CLOSED, closed_at := Some now\<rparr> = poll\<lparr>closed_at := Some now\<rparr>"
    using assms(2) by simp
  have same: "poll\<lparr>closed_at := Some now\<rparr> = poll" if "closed_at poll = Some now"
    using that by simp
  have "close_poll polls now pid
          = (dict_set polls pid (poll\<lparr>closed_at := Some now\<rparr>),
             Inr (to_response (poll\<lparr>closed_at := Some now\<rparr>)))"
    using assms(1) eq by (simp add: close_poll_def Let_def)
  then show ?thesis using assms(1)
    by (auto simp: dict_get_dict_set dict_keys_dict_set_present same)
qed

theorem close_again_overwrites_timestamp_witness:
  "dict_get [(''p'', example_poll)] ''p'' = Some example_poll \<and> status example_poll = CLOSED \<and>
   close_poll [(''p'', example_poll)] 3 ''p''
     = ([(''p'', example_poll\<lparr>closed_at := Some 3\<rparr>)],
        Inr (to_response (example_poll\<lparr>closed_at := Some 3\<rparr>)))"
proof -
  have 1: "dict_get [(''p'', example_poll)] ''p'' = Some example_poll" by (simp add: dict_get_def)
  have 2: "status example_poll = CLOSED" by (simp add: example_poll_def)
  have 3: "fst (close_poll [(''p'', example_poll)] 3 ''p'') = [(''p'', example_poll\<lparr>closed_at := Some 3\<rparr>)]"
    by (simp add: close_poll_def dict_get_def example_poll_def Let_def)
  from close_again_overwrites_timestamp [OF 1 2, of 3] 1 2 3 show ?thesis
    by (auto simp: prod_eq_iff)
qed

subsection \<open>Histories\<close>

lemma grows_refl: "grows poll poll"
  by (simp add: grows_def)

lemma grows_trans: "grows p q \<Longrightarrow> grows q r \<Longrightarrow> grows p r"
  unfolding grows_def by (elim conjE, intro conjI allI impI; force)
lemma grows_vote:
  assumes "dict_get (options poll) oid = Some option" "status poll = OPEN"
  shows "grows poll (poll\<lparr>options := dict_set (options poll) oid (option\<lparr>votes := votes option + 1\<rparr>),
                       voters := vs\<rparr>)"
  using assms by (auto simp: grows_def dict_keys_dict_set_present dict_get_dict_set)

lemma step_grows:
  assumes "fresh polls [op]" "dict_get polls pid = Some poll"
  shows "\<exists>poll'. dict_get (step polls op) pid = Some poll' \<and> grows poll poll'"
proof (cases op)
  case (Create uuid uuids now t os)
  with assms have "uuid \<noteq> pid" by auto
  with Create assms(2) show ?thesis
    by (auto simp: create_poll_def Let_def dict_get_dict_set grows_refl)
next
  case (Vote pid' voter oid)
  show ?thesis
  proof (cases "vote polls pid' voter oid")
    case (Pair polls' res)
    show ?thesis
    proof (cases res)
      case (Inl e)
      with Pair have "polls' = polls" by (auto dest: vote_failure)
      with Vote Pair assms(2) show ?thesis by (auto simp: grows_refl)
    next
      case (Inr r)
      with Pair have v: "vote polls pid' voter oid = (polls', Inr r)" by simp
      from v show ?thesis
      proof (rule vote_success)
        fix p option
        assume p: "dict_get polls pid' = Some p" "status p = OPEN"
          "dict_get (options p) oid = Some option"
          and polls': "polls' = dict_set polls pid'
                (p\<lparr>options := dict_set (options p) oid (option\<lparr>votes := votes option + 1\<rparr>),
                   voters := dict_set (voters p) (lower (strip voter)) oid\<rparr>)"
        show ?thesis
        proof (cases "pid' = pid")
          case True
          with p assms(2) have "p = poll" by simp
          with True p polls' Vote v show ?thesis
            by (auto simp: dict_get_dict_set intro!: grows_vote)
        next
          case False
          with polls' Vote v assms(2) show ?thesis
            by (auto simp: dict_get_dict_set grows_refl)
        qed
      qed
    qed
  qed
next
  case (Close now pid')
  with assms(2) show ?thesis
    by (auto simp: close_poll_def Let_def dict_get_dict_set grows_refl grows_def
        split: option.splits)
next
  case List
  with assms(2) show ?thesis by (simp add: all_polls_def grows_refl)
qed

lemma fresh_Cons: "fresh polls (op # ops) \<longleftrightarrow> fresh polls [op] \<and> fresh (step polls op) ops"
  by (cases op) auto

lemma fresh_append: "fresh polls (pre @ ops) \<longleftrightarrow> fresh polls pre \<and> fresh (run polls pre) ops"
proof (induction pre arbitrary: polls)
  case Nil
  show ?case by simp
next
  case (Cons op pre)
  show ?case using Cons.IH [of "step polls op"] fresh_Cons [of polls op "pre @ ops"]
      fresh_Cons [of polls op pre] by simp
qed

lemma run_append: "run polls (pre @ ops) = run (run polls pre) ops"
  by (induction pre arbitrary: polls) simp_all

lemma run_grows:
  "fresh polls ops \<Longrightarrow> dict_get polls pid = Some poll \<Longrightarrow>
   \<exists>poll'. dict_get (run polls ops) pid = Some poll' \<and> grows poll poll'"
proof (induction ops arbitrary: polls poll)
  case Nil
  then show ?case by (auto simp: grows_refl)
next
  case (Cons op ops)
  from Cons.prems have f: "fresh polls [op]" "fresh (step polls op) ops"
    using fresh_Cons by blast+
  from step_grows [OF f(1) Cons.prems(2)] obtain q
    where q: "dict_get (step polls op) pid = Some q" "grows poll q" by blast
  from Cons.IH [OF f(2) q(1)] obtain r
    where "dict_get (run (step polls op) ops) pid = Some r" "grows q r" by blast
  with q(2) show ?case by (auto intro: grows_trans)
qed

text \<open>
  Claim C8. Take any sequence of operations in which \<^verbatim>\<open>uuid4\<close> never returns the id of
  a poll already in the store, cut it anywhere, and take a poll that the store holds at the
  cut. After the rest of the sequence the store still holds a poll under that id, with the
  same option ids in the same order; each option has its label and at least the votes it
  had; and if the poll was closed at the cut, it is closed at the end.
\<close>

theorem nothing_removed_decreased_reopened:
  assumes "fresh polls (pre @ ops)" and "dict_get (run polls pre) pid = Some poll"
  shows "\<exists>poll'. dict_get (run polls (pre @ ops)) pid = Some poll' \<and>
           dict_keys (options poll') = dict_keys (options poll) \<and>
           (\<forall>oid option. dict_get (options poll) oid = Some option \<longrightarrow>
              (\<exists>option'. dict_get (options poll') oid = Some option' \<and>
                 label option' = label option \<and> votes option \<le> votes option')) \<and>
           (status poll = CLOSED \<longrightarrow> status poll' = CLOSED)"
proof -
  from assms(1) have "fresh (run polls pre) ops" by (simp add: fresh_append)
  from run_grows [OF this assms(2)] obtain poll'
    where poll': "dict_get (run polls (pre @ ops)) pid = Some poll'" "grows poll poll'"
    by (auto simp: run_append)
  from poll'(2) have "dict_keys (options poll') = dict_keys (options poll)"
    and "status poll = CLOSED \<longrightarrow> status poll' = CLOSED"
    and "\<forall>oid option. dict_get (options poll) oid = Some option \<longrightarrow>
              (\<exists>option'. dict_get (options poll') oid = Some option' \<and>
                 label option' = label option \<and> votes option \<le> votes option')"
    unfolding grows_def by blast+
  with poll'(1) show ?thesis by blast
qed

theorem nothing_removed_decreased_reopened_witness:
  "fresh [] example_ops \<and>
   dict_get (run [] [Create ''p'' [''a'', ''b''] 1 ''Lunch'' [''Pizza'', ''Tacos'']]) ''p''
     = Some new_poll \<and>
   dict_get (run [] example_ops) ''p'' = Some example_poll \<and>
   dict_keys (options example_poll) = dict_keys (options new_poll) \<and>
   (\<exists>option'. dict_get (options example_poll) ''a'' = Some option' \<and>
      label option' = ''Pizza'' \<and> 0 \<le> votes option')"
proof -
  let ?pre = "[Create ''p'' [''a'', ''b''] 1 ''Lunch'' [''Pizza'', ''Tacos'']]"
  let ?ops = "[Vote ''p'' ''Alice'' ''a'', Vote ''p'' ''alice '' ''b'', Close 2 ''p'']"
  have e: "?pre @ ?ops = example_ops" by (simp add: example_ops_def)
  have f: "fresh [] (?pre @ ?ops)" unfolding e by (rule fresh_example_ops)
  have g: "dict_get (run [] ?pre) ''p'' = Some new_poll"
    by (simp only: run_example_create) (simp add: dict_get_def)
  have o: "dict_get (options new_poll) ''a'' = Some \<lparr>option_id = ''a'', label = ''Pizza'', votes = 0\<rparr>"
    by (simp add: dict_get_def new_poll_def)
  have r: "dict_get (run [] example_ops) ''p'' = Some example_poll"
    by (simp add: run_example_ops dict_get_def)
  from nothing_removed_decreased_reopened [OF f g] obtain poll' where
    p: "dict_get (run [] (?pre @ ?ops)) ''p'' = Some poll'"
      "dict_keys (options poll') = dict_keys (options new_poll)"
      "\<forall>oid option. dict_get (options new_poll) oid = Some option \<longrightarrow>
              (\<exists>option'. dict_get (options poll') oid = Some option' \<and>
                 label option' = label option \<and> votes option \<le> votes option')"
    by blast
  from p(1) r have "poll' = example_poll" unfolding e by simp
  with p(2) p(3) o fresh_example_ops g r show ?thesis by fastforce
qed

text \<open>
  Claim C4. Once \<open>close_poll\<close> has succeeded on a poll, then after any further operations
  (in which \<^verbatim>\<open>uuid4\<close> returns no id already in the store) every \<open>vote\<close> on that poll
  fails with \<open>AlreadyClosed\<close> and returns the store unchanged, and the poll's options,
  with their vote counts, and its ledger are those it had when it was closed.
\<close>

theorem closed_poll_rejects_votes:
  assumes "close_poll polls0 now pid = (polls, Inr r)" and "fresh polls ops"
  shows "\<exists>poll poll'. dict_get polls pid = Some poll \<and> status poll = CLOSED \<and>
           dict_get (run polls ops) pid = Some poll' \<and>
           options poll' = options poll \<and> voters poll' = voters poll \<and>
           vote (run polls ops) pid voter oid = (run polls ops, Inl AlreadyClosed)"
proof -
  from assms(1) obtain poll where poll: "dict_get polls pid = Some poll" "status poll = CLOSED"
    by (auto simp: close_poll_def Let_def dict_get_dict_set split: option.splits)
  from run_grows [OF assms(2) poll(1)] obtain poll'
    where poll': "dict_get (run polls ops) pid = Some poll'" "grows poll poll'" by blast
  with poll(2) have "status poll' = CLOSED" "options poll' = options poll"
    "voters poll' = voters poll" by (simp_all add: grows_def)
  with poll poll' show ?thesis by (simp add: vote_def AlreadyClosed_def)
qed

theorem closed_poll_rejects_votes_witness:
  "close_poll [(''p'', open_poll)] 2 ''p''
     = ([(''p'', example_poll)], Inr (to_response example_poll)) \<and>
   fresh [(''p'', example_poll)] [Vote ''p'' ''Bob'' ''b'', List] \<and>
   vote (run [(''p'', example_poll)] [Vote ''p'' ''Bob'' ''b'', List]) ''p'' ''Carol'' ''a''
     = (run [(''p'', example_poll)] [Vote ''p'' ''Bob'' ''b'', List], Inl AlreadyClosed)"
proof -
  have c: "close_poll [(''p'', open_poll)] 2 ''p''
     = ([(''p'', example_poll)], Inr (to_response example_poll))"
    by (simp add: close_poll_def dict_get_def open_poll_def example_poll_def Let_def)
  have f: "fresh [(''p'', example_poll)] [Vote ''p'' ''Bob'' ''b'', List]" by simp
  from closed_poll_rejects_votes [OF c f, of "''Carol''" "''a''"] c f show ?thesis by blast
qed

subsection \<open>Creating a poll\<close>

lemma spec_unique_after_Nil: "spec_unique_after pre [] = []"
  by (simp add: spec_unique_after_def)

lemma spec_unique_after_Cons:
  "spec_unique_after pre (x # xs) =
     (if lower x \<in> lower ` set pre then spec_unique_after pre xs else x # spec_unique_after (pre @ [x]) xs)"
proof -
  let ?Q = "\<lambda>i. lower ((x # xs) ! i) \<notin> lower ` set (pre @ take i (x # xs))"
  let ?R = "\<lambda>pre' i. lower (xs ! i) \<notin> lower ` set (pre' @ take i xs)"
  have upt: "[0..<length (x # xs)] = 0 # map Suc [0..<length xs]"
    by (simp add: upt_conv_Cons map_Suc_upt del: upt_Suc)
  have "spec_unique_after pre (x # xs) = map ((!) (x # xs)) (filter ?Q (0 # map Suc [0..<length xs]))"
    by (simp only: spec_unique_after_def upt)
  also have "\<dots> = (if ?Q 0 then [x] else [])
                  @ map ((!) xs) (filter (\<lambda>i. ?Q (Suc i)) [0..<length xs])"
    by (simp add: filter_map comp_def)
  finally have unfold: "spec_unique_after pre (x # xs) = (if ?Q 0 then [x] else [])
                  @ map ((!) xs) (filter (\<lambda>i. ?Q (Suc i)) [0..<length xs])" .
  have head: "?Q 0 \<longleftrightarrow> lower x \<notin> lower ` set pre" by simp
  show ?thesis
  proof (cases "lower x \<in> lower ` set pre")
    case True
    have "?Q (Suc i) = ?R pre i" for i using True by auto
    then have "filter (\<lambda>i. ?Q (Suc i)) [0..<length xs] = filter (?R pre) [0..<length xs]"
      by (intro filter_cong refl)
    with True head show ?thesis unfolding unfold by (simp add: spec_unique_after_def)
  next
    case False
    have "?Q (Suc i) = ?R (pre @ [x]) i" for i by simp
    then have "filter (\<lambda>i. ?Q (Suc i)) [0..<length xs] = filter (?R (pre @ [x])) [0..<length xs]"
      by (intro filter_cong refl)
    with False head show ?thesis unfolding unfold by (simp add: spec_unique_after_def)
  qed
qed

lemma unique_loop_spec_unique_after:
  "seen = lower ` set pre \<Longrightarrow> unique_loop xs acc seen = acc @ spec_unique_after pre xs"
proof (induction xs arbitrary: acc seen pre)
  case Nil
  then show ?case by (simp add: spec_unique_after_Nil)
next
  case (Cons x xs)
  show ?case
  proof (cases "lower x \<in> seen")
    case True
    with Cons.prems Cons.IH [of seen pre acc] show ?thesis by (simp add: spec_unique_after_Cons)
  next
    case False
    have "insert (lower x) seen = lower ` set (pre @ [x])" using Cons.prems by auto
    from Cons.IH [OF this, of "acc @ [x]"] False Cons.prems show ?thesis
      by (simp add: spec_unique_after_Cons)
  qed
qed

lemma unique_loop_spec_unique_options: "unique_loop xs [] {} = spec_unique_options xs"
  using unique_loop_spec_unique_after [of "{}" "[]" xs "[]"] by (simp add: spec_unique_after_def spec_unique_options_def)

lemma cleaned_eq:
  "map strip (filter (\<lambda>opt. strip opt \<noteq> []) value) = spec_cleaned_options value"
  by (simp add: spec_cleaned_options_def filter_map comp_def)

lemma validate_options_spec:
  "validate_options value =
     (let unique = spec_unique_options (spec_cleaned_options value)
      in if length unique < 2
         then Inl (ValueError ''At least two unique options are required'')
         else Inr unique)"
  by (simp add: validate_options_def unique_loop_spec_unique_options cleaned_eq)

lemma option_records_loop_distinct:
  "distinct (map fst zs) \<Longrightarrow> set (map fst zs) \<inter> set (dict_keys acc) = {} \<Longrightarrow>
   foldl (\<lambda>records (option_id', label').
              dict_set records option_id' \<lparr>option_id = option_id', label = label', votes = 0\<rparr>)
     acc zs
   = acc @ map (\<lambda>(i, l). (i, \<lparr>option_id = i, label = l, votes = 0\<rparr>)) zs"
proof (induction zs arbitrary: acc)
  case Nil
  show ?case by simp
next
  case (Cons z zs)
  obtain i l where z: "z = (i, l)" by (cases z)
  from Cons.prems z have "dict_get acc i = None" by (auto simp: dict_get_None_iff)
  then have s: "dict_set acc i \<lparr>option_id = i, label = l, votes = 0\<rparr>
      = acc @ [(i, \<lparr>option_id = i, label = l, votes = 0\<rparr>)]" by (rule dict_set_absent)
  have "distinct (map fst zs)"
    "set (map fst zs) \<inter> set (dict_keys (acc @ [(i, \<lparr>option_id = i, label = l, votes = 0\<rparr>)])) = {}"
    using Cons.prems z by (auto simp: dict_keys_def)
  from Cons.IH [OF this] show ?case by (simp add: z s)
qed

lemma option_records_distinct:
  assumes "distinct uuids" "length uuids = length labels"
  shows "option_records uuids labels
     = map (\<lambda>(i, l). (i, \<lparr>option_id = i, label = l, votes = 0\<rparr>)) (zip uuids labels)"
proof -
  have "distinct (map fst (zip uuids labels))" using assms by simp
  from option_records_loop_distinct [OF this, of "[]"] show ?thesis
    by (simp add: option_records_def dict_keys_def)
qed

lemma spec_unique_options_colours:
  "spec_unique_options (spec_cleaned_options [''Red'', '' '', ''red'', ''Blue''])
     = [''Red'', ''Blue'']"
  unfolding unique_loop_spec_unique_options [symmetric]
  by (simp add: spec_cleaned_options_def str_eval)

lemma spec_unique_options_single:
  "spec_unique_options (spec_cleaned_options [''Red'', '' RED '']) = [''Red'']"
  unfolding unique_loop_spec_unique_options [symmetric]
  by (simp add: spec_cleaned_options_def str_eval)

text \<open>
  Claim C3. Let \<open>t\<close> be the trimmed title and \<open>unique\<close> the options that survive
  trimming, dropping of empties and case-insensitive de-duplication (first occurrence wins,
  order of first appearance kept). If \<open>t\<close> is empty or \<open>unique\<close> has fewer than two
  entries, creating the poll fails with \<open>ValidationError\<close> and the store is as before.
  Otherwise, when \<^verbatim>\<open>uuid4\<close> returns one id for each survivor and no id twice, the store
  holds under the new poll id a poll with title \<open>t\<close>, status \<open>OPEN\<close>, no closing time,
  exactly the survivors as options, in order and with no votes, and an empty ledger; the
  view returned is the view of that poll.
\<close>

theorem create_validates_and_dedups:
  "(let t = strip title';
        unique = spec_unique_options (spec_cleaned_options options');
        poll = \<lparr>poll_id = uuid, title = t, status = OPEN, created_at = now, closed_at = None,
                options = map (\<lambda>(i, l). (i, \<lparr>option_id = i, label = l, votes = 0\<rparr>))
                              (zip uuids unique),
                voters = []\<rparr>
    in (t = [] \<or> length unique < 2 \<longrightarrow>
          (\<exists>msgs. create_poll_route polls uuid uuids now title' options'
                     = (polls, Inl (ValidationError msgs)))) \<and>
       (t \<noteq> [] \<and> 2 \<le> length unique \<and> distinct uuids \<and> length uuids = length unique \<longrightarrow>
          create_poll_route polls uuid uuids now title' options'
            = (dict_set polls uuid poll, Inr (to_response poll)) \<and>
          map label (dict_values (options poll)) = unique))"
proof -
  define t where "t = strip title'"
  define unique where "unique = spec_unique_options (spec_cleaned_options options')"
  have vt: "validate_title title' = (if t = [] then Inl (ValueError ''Title is required'') else Inr t)"
    by (simp add: validate_title_def t_def Let_def)
  have vo: "validate_options options' = (if length unique < 2
         then Inl (ValueError ''At least two unique options are required'') else Inr unique)"
    by (simp add: validate_options_spec unique_def Let_def)
  have bad: "t = [] \<or> length unique < 2 \<Longrightarrow>
      \<exists>msgs. create_poll_route polls uuid uuids now title' options'
                     = (polls, Inl (ValidationError msgs))"
    by (auto simp: create_poll_route_def CreatePollRequest_def vt vo)
  have good: "create_poll_route polls uuid uuids now title' options'
      = create_poll polls uuid uuids now t unique" if "t \<noteq> []" "2 \<le> length unique"
    using that by (simp add: create_poll_route_def CreatePollRequest_def vt vo)
  have lab: "map label (dict_values (map (\<lambda>(i, l). (i, \<lparr>option_id = i, label = l, votes = 0\<rparr>))
                              (zip uuids unique))) = unique" if "length uuids = length unique"
    using that by (simp add: dict_values_def comp_def case_prod_unfold)
  show ?thesis
    unfolding Let_def t_def [symmetric] unique_def [symmetric]
    using bad good lab
    by (auto simp: create_poll_def Let_def option_records_distinct)
qed

theorem create_validates_and_dedups_witness:
  "create_poll_route [] ''q'' [''c'', ''d''] 3 '' Colours '' [''Red'', '' '', ''red'', ''Blue'']
     = ([(''q'', colour_poll)], Inr (to_response colour_poll)) \<and>
   map label (dict_values (options colour_poll)) = [''Red'', ''Blue''] \<and>
   (\<exists>msgs. create_poll_route [] ''q'' [''c'', ''d''] 3 ''Colours'' [''Red'', '' RED '']
             = ([], Inl (ValidationError msgs)))"
proof -
  have t: "strip '' Colours '' = ''Colours''" "strip ''Colours'' = ''Colours''"
    by (simp_all add: str_eval)
  from create_validates_and_dedups
         [of "'' Colours ''" "[''Red'', '' '', ''red'', ''Blue'']" "''q''" 3 "[''c'', ''d'']" "[]"]
  have a: "create_poll_route [] ''q'' [''c'', ''d''] 3 '' Colours '' [''Red'', '' '', ''red'', ''Blue'']
     = ([(''q'', colour_poll)], Inr (to_response colour_poll)) \<and>
   map label (dict_values (options colour_poll)) = [''Red'', ''Blue'']"
    unfolding spec_unique_options_colours t Let_def by (simp add: colour_poll_def)
  from create_validates_and_dedups
         [of "''Colours''" "[''Red'', '' RED '']" "''q''" 3 "[''c'', ''d'']" "[]"]
  have b: "\<exists>msgs. create_poll_route [] ''q'' [''c'', ''d''] 3 ''Colours'' [''Red'', '' RED '']
             = ([], Inl (ValidationError msgs))"
    unfolding spec_unique_options_single t Let_def by simp
  from a b show ?thesis by simp
qed

subsection \<open>Listing the polls\<close>

lemma resp_created_at_to_response: "resp_created_at (to_response record) = created_at record"
  by (simp add: to_response_def)

lemma all_polls_example:
  "snd (all_polls [(''p'', example_poll), (''q'', colour_poll)]) = example_views"
  by (simp add: example_views_def example_poll_def colour_poll_def store_eval str_eval)

text \<open>
  Claim C6. \<open>all_polls\<close> is a total function that returns a list of views, never an
  error, and the store it returns is the store it was given. The views are those of the
  polls of the store, each once, ordered by creation time, newest first; and the options of
  each view are those of its poll, ordered by lowercased label, ascending. This holds for
  every store, so for every order in which polls and options were created.
\<close>

theorem all_polls_sorted:
  "fst (all_polls polls) = polls \<and>
   mset (snd (all_polls polls)) = mset (map to_response (dict_values polls)) \<and>
   sorted_wrt (\<lambda>a b. resp_created_at a \<ge> resp_created_at b) (snd (all_polls polls)) \<and>
   (\<forall>view \<in> set (snd (all_polls polls)).
      sorted (map (\<lambda>opt. lower (view_label opt)) (resp_options view))) \<and>
   (\<forall>record \<in> set (dict_values polls).
      mset (resp_options (to_response record))
        = mset (map (\<lambda>option. \<lparr>view_id = option_id option, view_label = label option,
                                 view_votes = votes option\<rparr>) (dict_values (options record))))"
proof -
  let ?sorted = "sort_key created_at (rev (dict_values polls))"
  have views: "snd (all_polls polls) = map to_response (rev ?sorted)"
    by (simp add: all_polls_def list_sort_reverse_def)
  have "sorted (map created_at ?sorted)" by simp
  then have "sorted (map resp_created_at (map to_response ?sorted))"
    by (simp add: comp_def resp_created_at_to_response)
  then have "sorted_wrt (\<lambda>a b. resp_created_at a \<le> resp_created_at b) (map to_response ?sorted)"
    by (simp add: sorted_wrt_map sorted_map)
  then have desc: "sorted_wrt (\<lambda>a b. resp_created_at a \<ge> resp_created_at b)
                     (map to_response (rev ?sorted))"
    by (simp add: rev_map [symmetric] sorted_wrt_rev)
  have "mset (map to_response (rev ?sorted)) = mset (map to_response (dict_values polls))"
    by simp
  moreover have "sorted (map (\<lambda>opt. lower (view_label opt)) (resp_options (to_response r)))"
    for r by (simp add: to_response_def list_sort_def)
  moreover have "mset (resp_options (to_response r))
        = mset (map (\<lambda>option. \<lparr>view_id = option_id option, view_label = label option,
                                 view_votes = votes option\<rparr>) (dict_values (options r)))"
    for r by (simp add: to_response_def list_sort_def)
  ultimately show ?thesis using desc views by (auto simp: all_polls_def)
qed

theorem all_polls_sorted_witness:
  "snd (all_polls [(''p'', example_poll), (''q'', colour_poll)]) = example_views \<and>
   fst (all_polls [(''p'', example_poll), (''q'', colour_poll)])
     = [(''p'', example_poll), (''q'', colour_poll)] \<and>
   sorted_wrt (\<lambda>a b. resp_created_at a \<ge> resp_created_at b) example_views \<and>
   sorted (map (\<lambda>opt. lower (view_label opt)) (resp_options (hd example_views))) \<and>
   mset (resp_options (to_response colour_poll))
     = mset [\<lparr>view_id = ''c'', view_label = ''Red'', view_votes = 0\<rparr>,
             \<lparr>view_id = ''d'', view_label = ''Blue'', view_votes = 0\<rparr>]"
proof -
  have v: "hd example_views \<in> set (snd (all_polls [(''p'', example_poll), (''q'', colour_poll)]))"
    unfolding all_polls_example by (simp add: example_views_def)
  have r: "colour_poll \<in> set (dict_values [(''p'', example_poll), (''q'', colour_poll)])"
    by (simp add: dict_values_def)
  have o: "map (\<lambda>option. \<lparr>view_id = option_id option, view_label = label option,
                                 view_votes = votes option\<rparr>) (dict_values (options colour_poll))
     = [\<lparr>view_id = ''c'', view_label = ''Red'', view_votes = 0\<rparr>,
             \<lparr>view_id = ''d'', view_label = ''Blue'', view_votes = 0\<rparr>]"
    by (simp add: colour_poll_def dict_values_def)
  from all_polls_sorted [of "[(''p'', example_poll), (''q'', colour_poll)]"] v r
  show ?thesis unfolding all_polls_example o [symmetric] by blast
qed

end
